theory Spec2Isabelle
  imports Complex_Main "HOL-Library.AList"
begin

section \<open>Values of the program\<close>

text \<open>
  The program is \<^verbatim>\<open>operate/models/apis.py\<close>. Its operations are what \<^verbatim>\<open>json.loads\<close>
  returns: dictionaries inside a list, but nothing stops the model from answering with
  any other JSON value, so the whole JSON universe is modelled. A dictionary is an
  association list in insertion order (Python keeps it); \<^verbatim>\<open>d[k] = v\<close> is
  \<^const>\<open>AList.update\<close> (overwrite in place, or append at the end). Numbers are
  rationals: Python compares \<^verbatim>\<open>1\<close> and \<^verbatim>\<open>1.0\<close> equal, and no arithmetic is done
  on them here. \<^verbatim>\<open>None\<close> is \<open>JNull\<close>.
\<close>

datatype json =
    JNull
  | JBool bool
  | JNum rat
  | JStr string
  | JArr "json list"
  | JObj "(string \<times> json) list"

text \<open>The exceptions the modelled code can raise; \<open>NotFound\<close> is the failure of a resolver.\<close>

datatype exn =
    AttributeError
  | TypeError
  | KeyError
  | ZeroDivisionError
  | IndexError
  | UnboundLocalError
  | Cv2Error
  | NotFound

text \<open>\<^verbatim>\<open>not v\<close> is false exactly on the truthy values.\<close>

fun py_truthy :: "json \<Rightarrow> bool" where
  "py_truthy JNull = False"
| "py_truthy (JBool b) = b"
| "py_truthy (JNum r) = (r \<noteq> 0)"
| "py_truthy (JStr s) = (s \<noteq> [])"
| "py_truthy (JArr xs) = (xs \<noteq> [])"
| "py_truthy (JObj kvs) = (kvs \<noteq> [])"

text \<open>\<^verbatim>\<open>k in d\<close>, \<^verbatim>\<open>d.get(k)\<close> (default \<^verbatim>\<open>None\<close>) and \<^verbatim>\<open>d.get(k, default)\<close> on a dictionary.\<close>

definition has_key :: "(string \<times> json) list \<Rightarrow> string \<Rightarrow> bool" where
  "has_key kvs k = (map_of kvs k \<noteq> None)"

definition dict_get :: "(string \<times> json) list \<Rightarrow> string \<Rightarrow> json" where
  "dict_get kvs k = (case map_of kvs k of None \<Rightarrow> JNull | Some v \<Rightarrow> v)"

definition dict_get_default :: "(string \<times> json) list \<Rightarrow> string \<Rightarrow> json \<Rightarrow> json" where
  "dict_get_default kvs k d = (case map_of kvs k of None \<Rightarrow> d | Some v \<Rightarrow> v)"

text \<open>
  \<^verbatim>\<open>for operation in content\<close>: a list gives its elements, a dictionary its keys, a
  string its characters; \<^verbatim>\<open>None\<close>, a boolean and a number are not iterable.
\<close>

fun py_iter :: "json \<Rightarrow> exn + json list" where
  "py_iter (JArr xs) = Inr xs"
| "py_iter (JObj kvs) = Inr (map (\<lambda>kv. JStr (fst kv)) kvs)"
| "py_iter (JStr s) = Inr (map (\<lambda>c. JStr [c]) s)"
| "py_iter v = Inl TypeError"

text \<open>
  An operation of an emitted batch is a click when \<^verbatim>\<open>operation.get("operation")\<close> is
  \<^verbatim>\<open>"click"\<close>. In the loops only a dictionary has \<^verbatim>\<open>get\<close>: on any other value the
  attribute lookup raises \<^verbatim>\<open>AttributeError\<close>.
\<close>

fun is_click :: "json \<Rightarrow> bool" where
  "is_click (JObj kvs) = (dict_get kvs ''operation'' = JStr ''click'')"
| "is_click v = False"

section \<open>Text helpers\<close>

text \<open>
  Strings are ASCII texts: \<^verbatim>\<open>str.lower\<close>, \<^verbatim>\<open>str.isspace\<close> and the classes
  \<^verbatim>\<open>\w\<close>, \<^verbatim>\<open>\s\<close>, \<^verbatim>\<open>[A-Z]\<close>, \<^verbatim>\<open>[a-z]\<close> of \<^verbatim>\<open>re\<close> are modelled on the ASCII range.
\<close>

definition is_upper :: "char \<Rightarrow> bool" where
  "is_upper c = (c \<in> set ''ABCDEFGHIJKLMNOPQRSTUVWXYZ'')"

definition is_lower :: "char \<Rightarrow> bool" where
  "is_lower c = (c \<in> set ''abcdefghijklmnopqrstuvwxyz'')"

definition is_digit :: "char \<Rightarrow> bool" where
  "is_digit c = (c \<in> set ''0123456789'')"

definition is_word_char :: "char \<Rightarrow> bool" where
  "is_word_char c = (is_upper c \<or> is_lower c \<or> is_digit c \<or> c = CHR ''_'')"

definition is_space :: "char \<Rightarrow> bool" where
  "is_space c = (c \<in> set [CHR 0x09, CHR 0x0A, CHR 0x0B, CHR 0x0C, CHR 0x0D,
                         CHR 0x1C, CHR 0x1D, CHR 0x1E, CHR 0x1F, CHR 0x20])"

definition is_quote :: "char \<Rightarrow> bool" where
  "is_quote c = (c = CHR 0x27 \<or> c = CHR 0x22)"

definition char_lower :: "char \<Rightarrow> char" where
  "char_lower c =
     (case map_of (zip ''ABCDEFGHIJKLMNOPQRSTUVWXYZ'' ''abcdefghijklmnopqrstuvwxyz'') c of
        None \<Rightarrow> c | Some d \<Rightarrow> d)"

definition py_lower :: "string \<Rightarrow> string" where
  "py_lower s = map char_lower s"

text \<open>\<^verbatim>\<open>s.startswith(p)\<close> and \<^verbatim>\<open>sub in s\<close>.\<close>

fun starts_with :: "string \<Rightarrow> string \<Rightarrow> bool" where
  "starts_with s [] = True"
| "starts_with [] (p # ps) = False"
| "starts_with (c # cs) (p # ps) = (c = p \<and> starts_with cs ps)"

fun py_in :: "string \<Rightarrow> string \<Rightarrow> bool" where
  "py_in sub [] = (sub = [])"
| "py_in sub (c # cs) = (starts_with (c # cs) sub \<or> py_in sub cs)"

text \<open>\<^verbatim>\<open>s.split(sep, 1)[1]\<close>: what follows the first occurrence of \<open>sep\<close>, if there is one.\<close>

fun after_first :: "string \<Rightarrow> string \<Rightarrow> string option" where
  "after_first sep [] = (if sep = [] then Some [] else None)"
| "after_first sep (c # cs) =
     (if starts_with (c # cs) sep then Some (drop (length sep) (c # cs))
      else after_first sep cs)"

text \<open>\<^verbatim>\<open>s.split(ch)[0]\<close>, \<^verbatim>\<open>s.strip()\<close> and \<^verbatim>\<open>len(s.split())\<close>.\<close>

definition before_char :: "char \<Rightarrow> string \<Rightarrow> string" where
  "before_char ch s = takeWhile (\<lambda>c. c \<noteq> ch) s"

definition py_strip :: "string \<Rightarrow> string" where
  "py_strip s = rev (dropWhile is_space (rev (dropWhile is_space s)))"


section \<open>Regular expressions of the source\<close>

text \<open>
  Each pattern of the source is a matcher: given the character before the position
  (for \<^verbatim>\<open>\b\<close>) and the text from the position on, it returns the length of the match
  that Python's backtracking finds there and its group 1. \<^verbatim>\<open>re.search\<close> takes the
  leftmost position with a match; \<^verbatim>\<open>findall\<close> collects the groups of the successive
  non-overlapping matches, resuming after each match (no pattern here matches the
  empty string).
\<close>

type_synonym matcher = "char option \<Rightarrow> string \<Rightarrow> (nat \<times> string) option"

fun re_search :: "matcher \<Rightarrow> char option \<Rightarrow> string \<Rightarrow> string option" where
  "re_search m prev [] = None"
| "re_search m prev (c # cs) =
     (case m prev (c # cs) of
        Some (n, g) \<Rightarrow> Some g
      | None \<Rightarrow> re_search m (Some c) cs)"


text \<open>\<^verbatim>\<open>\b\<close> before a word character: the previous character is none or not a word character.\<close>

definition word_start :: "char option \<Rightarrow> bool" where
  "word_start prev = (case prev of None \<Rightarrow> True | Some p \<Rightarrow> \<not> is_word_char p)"


definition whole :: "string \<Rightarrow> (nat \<times> string) option" where
  "whole m = Some (length m, m)"

text \<open>
  \<^verbatim>\<open>['"]([^'"]+)['"]\<close>: a quote, the longest run of characters that are not quotes
  (at least one), and a quote. A shorter run cannot be followed by a quote, so
  backtracking adds no match.
\<close>

definition quoted_match :: matcher where
  "quoted_match prev s =
     (case s of
        [] \<Rightarrow> None
      | q # cs \<Rightarrow>
          (let body = takeWhile (\<lambda>c. \<not> is_quote c) cs;
               rest = dropWhile (\<lambda>c. \<not> is_quote c) cs
           in if is_quote q \<and> body \<noteq> [] \<and> rest \<noteq> [] then Some (length body + 2, body)
              else None))"






text \<open>
  \<^verbatim>\<open>(\b\w+-\w+-\w+\b|\bsbc[- ]\w+\b)\<close> with \<^verbatim>\<open>re.IGNORECASE\<close>: at the start of a word,
  three word runs joined by hyphens, else \<^verbatim>\<open>sbc\<close> in any case, a hyphen or a space, and
  a word run. The closing \<^verbatim>\<open>\b\<close> holds after a whole run.
\<close>

definition dashed_alt :: "string \<Rightarrow> (nat \<times> string) option" where
  "dashed_alt s =
     (let w1 = takeWhile is_word_char s; r1 = dropWhile is_word_char s
      in case r1 of
           [] \<Rightarrow> None
         | d1 # t1 \<Rightarrow>
             (let w2 = takeWhile is_word_char t1; r2 = dropWhile is_word_char t1
              in case r2 of
                   [] \<Rightarrow> None
                 | d2 # t2 \<Rightarrow>
                     (let w3 = takeWhile is_word_char t2
                      in if w1 \<noteq> [] \<and> d1 = CHR ''-'' \<and> w2 \<noteq> [] \<and> d2 = CHR ''-'' \<and> w3 \<noteq> []
                         then whole (w1 @ d1 # w2 @ d2 # w3)
                         else None)))"

definition sbc_alt :: "string \<Rightarrow> (nat \<times> string) option" where
  "sbc_alt s =
     (case s of
        a # b # c # d # t \<Rightarrow>
          (if py_lower [a, b, c] = ''sbc'' \<and> (d = CHR ''-'' \<or> d = CHR '' '')
              \<and> takeWhile is_word_char t \<noteq> []
           then whole (a # b # c # d # takeWhile is_word_char t)
           else None)
      | _ \<Rightarrow> None)"

definition name_match :: matcher where
  "name_match prev s =
     (if \<not> word_start prev then None
      else (case dashed_alt s of
              Some r \<Rightarrow> Some r
            | None \<Rightarrow> sbc_alt s))"

section \<open>The text target extractor\<close>



definition phrase_tail :: "string \<Rightarrow> string" where
  "phrase_tail rest = py_strip (before_char (CHR '','') (before_char (CHR ''.'') rest))"



section \<open>The normalizer of \<^verbatim>\<open>call_claude_37\<close>\<close>

text \<open>
  The target description of a click (used for logging, and deciding whether the
  coordinates are read): the \<^verbatim>\<open>text\<close> field when the operation has one, else what the
  thought yields (quoted text, a name pattern, the text after a click indicator), else
  the empty string. \<^verbatim>\<open>re.search\<close> raises on a thought that is not a string.
\<close>

definition click_indicators :: "string list" where
  "click_indicators = [''click on'', ''click the'', ''clicking on'', ''clicking the'']"

fun indicator_target :: "string list \<Rightarrow> string \<Rightarrow> string" where
  "indicator_target [] thought = []"
| "indicator_target (indicator # indicators) thought =
     (case after_first indicator (py_lower thought) of
        None \<Rightarrow> indicator_target indicators thought
      | Some rest \<Rightarrow> phrase_tail rest)"

definition thought_target :: "string \<Rightarrow> string" where
  "thought_target thought =
     (case re_search quoted_match None thought of
        Some g \<Rightarrow> g
      | None \<Rightarrow>
          (case re_search name_match None thought of
             Some g \<Rightarrow> g
           | None \<Rightarrow> indicator_target click_indicators thought))"

definition target_description :: "(string \<times> json) list \<Rightarrow> exn + json" where
  "target_description kvs =
     (if has_key kvs ''text'' then Inr (dict_get kvs ''text'')
      else if has_key kvs ''thought'' then
        (case dict_get_default kvs ''thought'' (JStr []) of
           JStr t \<Rightarrow> Inr (JStr (thought_target t))
         | _ \<Rightarrow> Inl TypeError)
      else Inr (JStr []))"

text \<open>
  The first loop: is a double click meant? An explicit truthy \<^verbatim>\<open>double_click\<close> flag, or
  a thought that holds both words, ends the loop with \<^verbatim>\<open>True\<close>. \<^verbatim>\<open>.lower()\<close> raises on
  a thought that is not a string, \<^verbatim>\<open>.get\<close> on an operation that is not a dictionary.
\<close>

definition says_double_click :: "string \<Rightarrow> bool" where
  "says_double_click t = (py_in ''double'' (py_lower t) \<and> py_in ''click'' (py_lower t))"

fun need_double_click :: "json list \<Rightarrow> exn + bool" where
  "need_double_click [] = Inr False"
| "need_double_click (JObj kvs # ops) =
     (if py_truthy (dict_get_default kvs ''double_click'' (JBool False)) then Inr True
      else if has_key kvs ''thought'' then
        (case dict_get kvs ''thought'' of
           JStr t \<Rightarrow> if says_double_click t then Inr True else need_double_click ops
         | _ \<Rightarrow> Inl AttributeError)
      else need_double_click ops)"
| "need_double_click (v # ops) = Inl AttributeError"

text \<open>
  The second loop, over \<^verbatim>\<open>enumerate(parsed_content)\<close>. For a click: an empty
  description is replaced by one built from \<^verbatim>\<open>operation['x']\<close> and
  \<^verbatim>\<open>operation['y']\<close> (a missing key raises); under a double click the operation at
  index 0 is marked when both coordinates can be read (the \<^verbatim>\<open>try\<close> around the reads
  swallows a missing key and leaves the mark out), and a click at a later index is
  skipped. Everything else is appended as it is.
\<close>

definition has_xy :: "(string \<times> json) list \<Rightarrow> bool" where
  "has_xy kvs = (has_key kvs ''x'' \<and> has_key kvs ''y'')"

definition mark_double_click :: "bool \<Rightarrow> nat \<Rightarrow> (string \<times> json) list \<Rightarrow> (string \<times> json) list" where
  "mark_double_click need i kvs =
     (if need \<and> i = 0 \<and> has_xy kvs then AList.update ''double_click'' (JBool True) kvs else kvs)"

fun claude_37_loop :: "bool \<Rightarrow> nat \<Rightarrow> json list \<Rightarrow> exn + json list" where
  "claude_37_loop need i [] = Inr []"
| "claude_37_loop need i (JObj kvs # ops) =
     (if dict_get kvs ''operation'' = JStr ''click'' then
        (case target_description kvs of
           Inl e \<Rightarrow> Inl e
         | Inr description \<Rightarrow>
             if \<not> py_truthy description \<and> \<not> has_xy kvs then Inl KeyError
             else if need \<and> 0 < i then claude_37_loop need (Suc i) ops
             else (case claude_37_loop need (Suc i) ops of
                     Inl e \<Rightarrow> Inl e
                   | Inr rest \<Rightarrow> Inr (JObj (mark_double_click need i kvs) # rest)))
      else (case claude_37_loop need (Suc i) ops of
              Inl e \<Rightarrow> Inl e
            | Inr rest \<Rightarrow> Inr (JObj kvs # rest)))"
| "claude_37_loop need i (v # ops) = Inl AttributeError"

definition claude_37_process :: "json \<Rightarrow> exn + json list" where
  "claude_37_process parsed_content =
     (case py_iter parsed_content of
        Inl e \<Rightarrow> Inl e
      | Inr ops \<Rightarrow>
          (case need_double_click ops of
             Inl e \<Rightarrow> Inl e
           | Inr need \<Rightarrow> claude_37_loop need 0 ops))"

section \<open>The model's replies\<close>

text \<open>
  A backend call captures the screen, sends the request and parses the answer. What
  the outside world contributes to one request is a \<open>reply\<close>:
  \<^item> \<open>Raised\<close>: the capture or the request raised (network error, client exception), so
    no content was received;
  \<^item> \<open>ResponseError\<close>: the Ollama client raised its \<^verbatim>\<open>ollama.ResponseError\<close> (any other
    backend sees it as one more exception);
  \<^item> \<open>Undecodable\<close>: content was received and \<^verbatim>\<open>json.loads\<close> rejected it;
  \<^item> \<open>Parsed v\<close>: \<^verbatim>\<open>json.loads\<close> returned \<open>v\<close>.
  The replies of a turn are a sequence indexed by the number of requests made so far;
  a backend returns its result and the number of requests made, or \<open>None\<close> when it
  never returns. The message history (always the system prompt at index 0 and what
  the turns appended) only feeds the requests and is not modelled.
\<close>

datatype reply = Raised | ResponseError | Undecodable | Parsed json

type_synonym outcome = "((exn + json) \<times> nat) option"

subsection \<open>\<^verbatim>\<open>call_claude_37\<close>\<close>

definition decode_fallback_operation :: json where
  "decode_fallback_operation =
     JObj [(''thought'', JStr ''Continuing with task''), (''operation'', JStr ''wait''),
           (''duration'', JNum 1)]"

definition empty_fallback_operation :: json where
  "empty_fallback_operation = JObj [(''operation'', JStr ''wait''), (''duration'', JNum 1)]"

definition error_fallback_operation :: json where
  "error_fallback_operation =
     JObj [(''thought'', JStr ''Continuing task after error''), (''operation'', JStr ''wait''),
           (''duration'', JNum 1)]"

definition claude_37_finish :: "exn + json list \<Rightarrow> json list" where
  "claude_37_finish processed =
     (case processed of
        Inl e \<Rightarrow> [error_fallback_operation]
      | Inr processed_content \<Rightarrow>
          if processed_content = [] then [empty_fallback_operation] else processed_content)"

text \<open>
  One request, no retry: a \<^verbatim>\<open>JSONDecodeError\<close> is replaced by the decode fallback and
  normalised like any answer; every other exception inside the \<^verbatim>\<open>try\<close>, from the
  request or from the normalizer, ends in the error fallback. The text that is parsed
  is the answer with its code fences removed, the JSON block found inside an answer
  that starts with prose, or one of two fixed lists when there is no such block; in
  each case \<open>Parsed v\<close> is what \<^verbatim>\<open>json.loads\<close> made of it.
\<close>

definition call_claude_37 :: "reply \<Rightarrow> json list" where
  "call_claude_37 r =
     (case r of
        Parsed parsed_content \<Rightarrow> claude_37_finish (claude_37_process parsed_content)
      | Undecodable \<Rightarrow> claude_37_finish (claude_37_process (JArr [decode_fallback_operation]))
      | _ \<Rightarrow> [error_fallback_operation])"

subsection \<open>\<^verbatim>\<open>call_gpt_4o\<close> and \<^verbatim>\<open>call_ollama_llava\<close>\<close>

text \<open>
  \<^verbatim>\<open>call_gpt_4o\<close>: the handler of \<^verbatim>\<open>except Exception\<close> prints \<^verbatim>\<open>content\<close> and calls
  \<^verbatim>\<open>call_gpt_4o(messages)\<close> again. When the request itself raised, \<^verbatim>\<open>content\<close> was
  never bound and the print raises \<^verbatim>\<open>UnboundLocalError\<close> out of the function; when
  the content does not parse, the function calls itself. Nothing counts the calls, so
  the model is a partial function: \<open>None\<close> is a call that never returns. (CPython
  ends such a recursion with \<^verbatim>\<open>RecursionError\<close> at its recursion limit, about 1000
  frames; the interpreter's limit is not part of the model.)
\<close>

partial_function (option) call_gpt_4o :: "(nat \<Rightarrow> reply) \<Rightarrow> nat \<Rightarrow> outcome" where
  "call_gpt_4o replies n =
     (case replies n of
        Parsed content \<Rightarrow> Some (Inr content, Suc n)
      | Undecodable \<Rightarrow> call_gpt_4o replies (Suc n)
      | Raised \<Rightarrow> Some (Inl UnboundLocalError, Suc n)
      | ResponseError \<Rightarrow> Some (Inl UnboundLocalError, Suc n))"


text \<open>\<^verbatim>\<open>gpt_4_fallback\<close> rewrites the system prompt and calls \<^verbatim>\<open>call_gpt_4o\<close>.\<close>

definition gpt_4_fallback :: "(nat \<Rightarrow> reply) \<Rightarrow> nat \<Rightarrow> outcome" where
  "gpt_4_fallback replies n = call_gpt_4o replies n"


subsection \<open>The OCR-augmented backends\<close>

text \<open>
  \<^verbatim>\<open>call_gpt_4o_with_ocr\<close>, \<^verbatim>\<open>call_o1_with_ocr\<close> and \<^verbatim>\<open>call_qwen_vl_with_ocr\<close> run the
  same loop: a click is resolved by \<^verbatim>\<open>get_text_element\<close> and
  \<^verbatim>\<open>get_text_coordinates\<close> of \<^verbatim>\<open>operate.utils.ocr\<close> and gets the coordinates as
  \<^verbatim>\<open>x\<close> and \<^verbatim>\<open>y\<close>; any other operation is appended as it is. The two helpers are not
  in the source file; here they are parameters, \<open>gte\<close> from the text to an index and
  \<open>gtc\<close> from the index to the pair of coordinates, each free to raise.
  \<^verbatim>\<open>call_claude_3_with_ocr\<close> passes \<^verbatim>\<open>text_to_click[:3]\<close> instead of the text.
\<close>

definition text_click ::
  "(json \<Rightarrow> exn + json) \<Rightarrow> (json \<Rightarrow> exn + nat) \<Rightarrow> (nat \<Rightarrow> exn + json \<times> json) \<Rightarrow> json
     \<Rightarrow> exn + json \<times> json" where
  "text_click prep gte gtc text_to_click =
     (case prep text_to_click of
        Inl e \<Rightarrow> Inl e
      | Inr search_text \<Rightarrow>
          (case gte search_text of
             Inl e \<Rightarrow> Inl e
           | Inr text_element_index \<Rightarrow> gtc text_element_index))"

fun py_slice3 :: "json \<Rightarrow> exn + json" where
  "py_slice3 (JStr s) = Inr (JStr (take 3 s))"
| "py_slice3 (JArr xs) = Inr (JArr (take 3 xs))"
| "py_slice3 v = Inl TypeError"

fun ocr_click_loop :: "(json \<Rightarrow> exn + json \<times> json) \<Rightarrow> json list \<Rightarrow> exn + json list" where
  "ocr_click_loop resolve [] = Inr []"
| "ocr_click_loop resolve (JObj kvs # ops) =
     (if dict_get kvs ''operation'' = JStr ''click'' then
        (case resolve (dict_get kvs ''text'') of
           Inl e \<Rightarrow> Inl e
         | Inr (x, y) \<Rightarrow>
             (case ocr_click_loop resolve ops of
                Inl e \<Rightarrow> Inl e
              | Inr rest \<Rightarrow> Inr (JObj (AList.update ''y'' y (AList.update ''x'' x kvs)) # rest)))
      else (case ocr_click_loop resolve ops of
              Inl e \<Rightarrow> Inl e
            | Inr rest \<Rightarrow> Inr (JObj kvs # rest)))"
| "ocr_click_loop resolve (v # ops) = Inl AttributeError"

definition ocr_process :: "(json \<Rightarrow> exn + json \<times> json) \<Rightarrow> json \<Rightarrow> exn + json list" where
  "ocr_process resolve content =
     (case py_iter content of
        Inl e \<Rightarrow> Inl e
      | Inr ops \<Rightarrow> ocr_click_loop resolve ops)"

text \<open>
  The loop runs inside the \<^verbatim>\<open>try\<close>: whatever raises, the request or the resolution of
  one click, the handler drops the batch and returns \<^verbatim>\<open>gpt_4_fallback(...)\<close>.
\<close>

definition ocr_finish :: "exn + json list \<Rightarrow> (nat \<Rightarrow> reply) \<Rightarrow> nat \<Rightarrow> outcome" where
  "ocr_finish processed replies n =
     (case processed of
        Inr processed_content \<Rightarrow> Some (Inr (JArr processed_content), n)
      | Inl e \<Rightarrow> gpt_4_fallback replies n)"

definition call_gpt_4o_with_ocr ::
  "(json \<Rightarrow> exn + nat) \<Rightarrow> (nat \<Rightarrow> exn + json \<times> json) \<Rightarrow> (nat \<Rightarrow> reply) \<Rightarrow> nat \<Rightarrow> outcome" where
  "call_gpt_4o_with_ocr gte gtc replies n =
     (case replies n of
        Parsed content \<Rightarrow> ocr_finish (ocr_process (text_click Inr gte gtc) content) replies (Suc n)
      | _ \<Rightarrow> gpt_4_fallback replies (Suc n))"



text \<open>
  \<^verbatim>\<open>call_claude_3_with_ocr\<close>: a \<^verbatim>\<open>JSONDecodeError\<close> of the first answer is followed by
  one corrective request; if that answer does not parse either, the exception reaches
  the outer handler.
\<close>

definition call_claude_3_with_ocr ::
  "(json \<Rightarrow> exn + nat) \<Rightarrow> (nat \<Rightarrow> exn + json \<times> json) \<Rightarrow> (nat \<Rightarrow> reply) \<Rightarrow> nat \<Rightarrow> outcome" where
  "call_claude_3_with_ocr gte gtc replies n =
     (case replies n of
        Parsed content \<Rightarrow>
          ocr_finish (ocr_process (text_click py_slice3 gte gtc) content) replies (Suc n)
      | Undecodable \<Rightarrow>
          (case replies (Suc n) of
             Parsed content \<Rightarrow>
               ocr_finish (ocr_process (text_click py_slice3 gte gtc) content) replies (Suc (Suc n))
           | _ \<Rightarrow> gpt_4_fallback replies (Suc (Suc n)))
      | _ \<Rightarrow> gpt_4_fallback replies (Suc n))"

subsection \<open>The label-augmented backend\<close>

text \<open>
  \<^verbatim>\<open>call_gpt_4o_labeled\<close>. \<^verbatim>\<open>get_label_coordinates\<close> and
  \<^verbatim>\<open>get_click_position_in_percent\<close> of \<^verbatim>\<open>operate.utils.label\<close> are not in the source
  file; together they are the parameter \<open>locate\<close>, from the label to the position in
  percent, \<open>None\<close> when there is none. \<open>fmt\<close> is Python's \<^verbatim>\<open>f"{v:.2f}"\<close>. The
  \<^verbatim>\<open>return processed_content\<close> stands inside the \<^verbatim>\<open>for\<close> body, so the loop ends in
  its first iteration; an empty answer falls off the end of the function, which
  returns \<^verbatim>\<open>None\<close>.
\<close>

datatype labeled_step = Emit json | Unresolved | Failed exn

fun labeled_loop ::
  "(json \<Rightarrow> exn + (rat \<times> rat) option) \<Rightarrow> (rat \<Rightarrow> string) \<Rightarrow> json list \<Rightarrow> labeled_step" where
  "labeled_loop locate fmt [] = Emit JNull"
| "labeled_loop locate fmt (JObj kvs # ops) =
     (if dict_get kvs ''operation'' = JStr ''click'' then
        (case locate (dict_get kvs ''label'') of
           Inl e \<Rightarrow> Failed e
         | Inr None \<Rightarrow> Unresolved
         | Inr (Some (x, y)) \<Rightarrow>
             Emit (JArr [JObj (AList.update ''y'' (JStr (fmt y))
                                (AList.update ''x'' (JStr (fmt x)) kvs))]))
      else Emit (JArr [JObj kvs]))"
| "labeled_loop locate fmt (v # ops) = Failed AttributeError"

definition labeled_process ::
  "(json \<Rightarrow> exn + (rat \<times> rat) option) \<Rightarrow> (rat \<Rightarrow> string) \<Rightarrow> json \<Rightarrow> labeled_step" where
  "labeled_process locate fmt content =
     (case py_iter content of
        Inl e \<Rightarrow> Failed e
      | Inr ops \<Rightarrow> labeled_loop locate fmt ops)"

text \<open>
  An unresolved click returns \<^verbatim>\<open>call_gpt_4o(messages)\<close> from inside the \<^verbatim>\<open>try\<close>: when
  that call raises, the handler calls \<^verbatim>\<open>call_gpt_4o\<close> once more.
\<close>

definition call_gpt_4o_labeled ::
  "(json \<Rightarrow> exn + (rat \<times> rat) option) \<Rightarrow> (rat \<Rightarrow> string) \<Rightarrow> (nat \<Rightarrow> reply) \<Rightarrow> nat \<Rightarrow> outcome" where
  "call_gpt_4o_labeled locate fmt replies n =
     (case replies n of
        Parsed content \<Rightarrow>
          (case labeled_process locate fmt content of
             Emit v \<Rightarrow> Some (Inr v, Suc n)
           | Unresolved \<Rightarrow>
               (case call_gpt_4o replies (Suc n) of
                  None \<Rightarrow> None
                | Some (Inr v, n') \<Rightarrow> Some (Inr v, n')
                | Some (Inl e, n') \<Rightarrow> call_gpt_4o replies n')
           | Failed e \<Rightarrow> call_gpt_4o replies (Suc n))
      | _ \<Rightarrow> call_gpt_4o replies (Suc n))"

section \<open>The OCR text-click resolver\<close>

text \<open>
  An OCR result is the list EasyOCR returns: per element the four corners of its box,
  the recognised text and the confidence.
\<close>

type_synonym ocr_element = "(rat \<times> rat) list \<times> string \<times> rat"

definition ocr_box :: "ocr_element \<Rightarrow> (rat \<times> rat) list" where
  "ocr_box e = fst e"

definition ocr_text :: "ocr_element \<Rightarrow> string" where
  "ocr_text e = fst (snd e)"

fun first_index :: "('a \<Rightarrow> bool) \<Rightarrow> 'a list \<Rightarrow> nat option" where
  "first_index P [] = None"
| "first_index P (x # xs) =
     (if P x then Some 0 else (case first_index P xs of None \<Rightarrow> None | Some i \<Rightarrow> Some (Suc i)))"

text \<open>
  Modelled from the spec: \<^verbatim>\<open>get_text_element\<close> of \<^verbatim>\<open>operate/utils/ocr.py\<close> is not in the
  source file. The spec (4.3): pick the element whose text best matches the target, by
  substring containment, deterministically, preferring exact matches over partial
  ones; fail when no element matches. So: the first element whose text is the target,
  else the first element whose text contains it, else the failure.
\<close>

definition get_text_element :: "ocr_element list \<Rightarrow> json \<Rightarrow> exn + nat" where
  "get_text_element result search_text =
     (case search_text of
        JStr t \<Rightarrow>
          (case first_index (\<lambda>e. ocr_text e = t) result of
             Some i \<Rightarrow> Inr i
           | None \<Rightarrow>
               (case first_index (\<lambda>e. py_in t (ocr_text e)) result of
                  Some i \<Rightarrow> Inr i
                | None \<Rightarrow> Inl NotFound))
      | _ \<Rightarrow> Inl TypeError)"

text \<open>
  Modelled from the spec: the centre of an element's box, which
  \<^verbatim>\<open>get_text_coordinates\<close> (not in the source file) returns. The spec (4.3, 8): the
  centre of the box, as a fraction of the screenshot's width and height; for the box
  (100, 200) to (180, 230) on a 1000 by 800 screenshot about (0.14, 0.27). The centre
  is that of the rectangle around the four corners.
\<close>

definition box_center :: "(rat \<times> rat) list \<Rightarrow> rat \<times> rat" where
  "box_center box =
     (case box of
        [] \<Rightarrow> (0, 0)
      | p # ps \<Rightarrow>
          ((fold min (map fst ps) (fst p) + fold max (map fst ps) (fst p)) / 2,
           (fold min (map snd ps) (snd p) + fold max (map snd ps) (snd p)) / 2))"

definition element_center :: "nat \<times> nat \<Rightarrow> ocr_element \<Rightarrow> json \<times> json" where
  "element_center dims e =
     (JNum (fst (box_center (ocr_box e)) / of_nat (fst dims)),
      JNum (snd (box_center (ocr_box e)) / of_nat (snd dims)))"

text \<open>
  Modelled from the spec: \<^verbatim>\<open>get_text_coordinates\<close> of \<^verbatim>\<open>operate/utils/ocr.py\<close> is not in
  the source file. The spec (4.3): from the OCR result and the index of an element to
  the fractional centre of that element; an index outside the result and a screenshot
  without extent are failures.
\<close>

definition get_text_coordinates :: "nat \<times> nat \<Rightarrow> ocr_element list \<Rightarrow> nat \<Rightarrow> exn + json \<times> json" where
  "get_text_coordinates dims result i =
     (if length result \<le> i then Inl IndexError
      else if fst dims = 0 \<or> snd dims = 0 then Inl ZeroDivisionError
      else Inr (element_center dims (result ! i)))"

section \<open>The multi-strategy target locator\<close>

text \<open>
  \<^verbatim>\<open>find_ui_element_by_text_and_vision\<close> appends the candidates of template matching,
  of OCR matching and of shape matching to \<^verbatim>\<open>results\<close>, in this order, and selects.
  The three strategies run OpenCV, EasyOCR and difflib on the screenshot; their
  candidates are the arguments here. Confidences and centres are floats in the source
  and rationals here: the selection only compares confidences, which is exact on
  floats, and the division is the real one. The screen size is that of an image PIL
  has opened; a zero in it raises in Python for an integer centre.
\<close>

record candidate =
  kind :: string
  confidence :: rat
  center :: "rat \<times> rat"

text \<open>
  \<^verbatim>\<open>results.sort(key=..., reverse=True)\<close> is stable: candidates of equal confidence
  keep their order. It is the stable ascending sort on the negated confidence.
\<close>

definition sort_by_confidence :: "candidate list \<Rightarrow> candidate list" where
  "sort_by_confidence results = sort_key (\<lambda>c. - confidence c) results"

definition find_ui_element_by_text_and_vision ::
  "candidate list \<Rightarrow> candidate list \<Rightarrow> candidate list \<Rightarrow> nat \<times> nat \<Rightarrow> exn + (rat \<times> rat) option" where
  "find_ui_element_by_text_and_vision template_matches text_matches shape_matches dims =
     (case sort_by_confidence (template_matches @ text_matches @ shape_matches) of
        [] \<Rightarrow> Inr None
      | best_match # others \<Rightarrow>
          if fst dims = 0 \<or> snd dims = 0 then Inl ZeroDivisionError
          else Inr (Some (fst (center best_match) / of_nat (fst dims),
                          snd (center best_match) / of_nat (snd dims))))"

section \<open>The verification probe\<close>

text \<open>
  \<^verbatim>\<open>verify_success\<close>. An image is its NumPy array: rows, columns and the pixels row by
  row, three 8-bit channels each. \<^verbatim>\<open>cv2.resize\<close> and the grey conversion
  \<^verbatim>\<open>cv2.cvtColor\<close> are OpenCV's and are parameters; \<^verbatim>\<open>cv2.absdiff\<close> is the
  channel-wise distance and raises on arrays of different sizes. The percentage is a
  float in the source and a rational here.
\<close>

type_synonym pixel = "nat \<times> nat \<times> nat"

record image =
  rows :: nat
  cols :: nat
  pixels :: "pixel list"

definition shape :: "image \<Rightarrow> nat \<times> nat" where
  "shape img = (rows img, cols img)"

definition channel_diff :: "nat \<Rightarrow> nat \<Rightarrow> nat" where
  "channel_diff a b = (if a \<le> b then b - a else a - b)"

definition absdiff :: "pixel \<Rightarrow> pixel \<Rightarrow> pixel" where
  "absdiff p q =
     (channel_diff (fst p) (fst q), channel_diff (fst (snd p)) (fst (snd q)), channel_diff (snd (snd p)) (snd (snd q)))"

definition threshold :: "nat \<Rightarrow> nat" where
  "threshold g = (if 30 < g then 255 else 0)"

definition count_nonzero :: "nat list \<Rightarrow> nat" where
  "count_nonzero vs = length (filter (\<lambda>v. v \<noteq> 0) vs)"

definition verify_success ::
  "(image \<Rightarrow> nat \<times> nat \<Rightarrow> image) \<Rightarrow> (pixel \<Rightarrow> nat) \<Rightarrow> image \<Rightarrow> image \<Rightarrow> string \<Rightarrow> exn + bool" where
  "verify_success resize gray before after task_type =
     (let after_np = (if shape before \<noteq> shape after
                      then resize after (cols before, rows before) else after)
      in if task_type = ''open_folder'' then
           (if shape before \<noteq> shape after_np \<or> length (pixels before) \<noteq> length (pixels after_np)
            then Inl Cv2Error
            else (let thresholded =
                        map (\<lambda>pq. threshold (gray (absdiff (fst pq) (snd pq))))
                            (zip (pixels before) (pixels after_np));
                      changed_pixels = count_nonzero thresholded;
                      total_pixels = length thresholded
                  in if total_pixels = 0 then Inl ZeroDivisionError
                     else Inr (15 < (of_nat changed_pixels / of_nat total_pixels) * (100 :: rat))))
         else Inr False)"

section \<open>Notions of the claims\<close>

text \<open>
  What makes the double-click heuristic of \<^verbatim>\<open>call_claude_37\<close> fire on an operation: a
  truthy \<^verbatim>\<open>double_click\<close> flag, or a thought in which the words double and click both
  occur.
\<close>

definition signals_double_click :: "json \<Rightarrow> bool" where
  "signals_double_click op =
     (case op of
        JObj kvs \<Rightarrow>
          py_truthy (dict_get_default kvs ''double_click'' (JBool False))
          \<or> (case map_of kvs ''thought'' of
                Some (JStr t) \<Rightarrow> says_double_click t
              | _ \<Rightarrow> False)
      | _ \<Rightarrow> False)"

text \<open>
  What the loop of the OCR-augmented backends appends for one operation, when it
  appends: a click with the coordinates the resolver returned for its \<^verbatim>\<open>text\<close>, any
  other dictionary as it is. \<open>None\<close> is an operation on which the loop raises.
\<close>

definition enrich :: "(json \<Rightarrow> exn + json \<times> json) \<Rightarrow> json \<Rightarrow> json option" where
  "enrich resolve op =
     (case op of
        JObj kvs \<Rightarrow>
          if dict_get kvs ''operation'' = JStr ''click'' then
            (case resolve (dict_get kvs ''text'') of
               Inl e \<Rightarrow> None
             | Inr (x, y) \<Rightarrow> Some (JObj (AList.update ''y'' y (AList.update ''x'' x kvs))))
          else Some op
      | _ \<Rightarrow> None)"


text \<open>
  The comparison of \<^verbatim>\<open>verify_success\<close> in the words of the spec: the image compared
  with the one before is the one after, resized when the dimensions differ; a pixel
  has changed when the grey value of the channel-wise difference exceeds 30; the
  percentage is that of the changed pixels. Two images can be compared when their
  dimensions agree and there is a pixel.
\<close>

definition compared_image :: "(image \<Rightarrow> nat \<times> nat \<Rightarrow> image) \<Rightarrow> image \<Rightarrow> image \<Rightarrow> image" where
  "compared_image resize before after =
     (if shape before \<noteq> shape after then resize after (cols before, rows before) else after)"

definition changed_pixels :: "(pixel \<Rightarrow> nat) \<Rightarrow> image \<Rightarrow> image \<Rightarrow> nat set" where
  "changed_pixels gray before after =
     {i. i < length (pixels before) \<and> 30 < gray (absdiff (pixels before ! i) (pixels after ! i))}"

definition change_percentage :: "(pixel \<Rightarrow> nat) \<Rightarrow> image \<Rightarrow> image \<Rightarrow> rat" where
  "change_percentage gray before after =
     of_nat (card (changed_pixels gray before after)) / of_nat (length (pixels before)) * 100"

definition comparable :: "image \<Rightarrow> image \<Rightarrow> bool" where
  "comparable before after \<longleftrightarrow>
     shape before = shape after \<and> length (pixels before) = length (pixels after)
     \<and> pixels before \<noteq> []"

section \<open>Properties of the locator's selection\<close>

lemma hd_insort_key:
  "hd (insort_key f x ys) = (if ys = [] \<or> f x \<le> f (hd ys) then x else hd ys)"
  by (cases ys) auto

lemma sort_key_Nil_iff: "sort_key f xs = [] \<longleftrightarrow> xs = []"
  by (metis length_sort list.size(3) length_0_conv)

text \<open>
  The head of a stable sort is the first element of least key: the keys before it are
  strictly greater, the keys after it are not smaller.
\<close>

lemma hd_sort_key_first_least:
  "xs \<noteq> [] \<Longrightarrow>
     \<exists>pre post. xs = pre @ hd (sort_key f xs) # post
       \<and> (\<forall>c\<in>set pre. f (hd (sort_key f xs)) < f c)
       \<and> (\<forall>c\<in>set post. f (hd (sort_key f xs)) \<le> f c)"
proof (induction xs)
  case Nil
  then show ?case by simp
next
  case (Cons x xs)
  show ?case
  proof (cases "xs = []")
    case True
    then show ?thesis by (intro exI [of _ "[]"]) simp
  next
    case False
    let ?b = "hd (sort_key f xs)"
    from Cons.IH [OF False] obtain pre post where
      xs: "xs = pre @ ?b # post" and pre: "\<forall>c\<in>set pre. f ?b < f c"
      and post: "\<forall>c\<in>set post. f ?b \<le> f c"
      by blast
    have ne: "sort_key f xs \<noteq> []" using False by (simp add: sort_key_Nil_iff)
    show ?thesis
    proof (cases "f x \<le> f ?b")
      case True
      then have h: "hd (sort_key f (x # xs)) = x" by (simp add: hd_insort_key)
      have "\<forall>c\<in>set xs. f x \<le> f c"
      proof
        fix c assume "c \<in> set xs"
        then have "c \<in> set pre \<or> c = ?b \<or> c \<in> set post"
          using xs by (metis Un_iff set_ConsD set_append)
        then show "f x \<le> f c" using True pre post by (auto intro: order_trans less_imp_le)
      qed
      then show ?thesis using h by (intro exI [of _ "[]"] exI [of _ xs]) simp
    next
      case False
      then have h: "hd (sort_key f (x # xs)) = ?b" using ne by (simp add: hd_insort_key)
      have "x # xs = (x # pre) @ ?b # post" using xs by simp
      moreover have "\<forall>c\<in>set (x # pre). f ?b < f c" using pre False by auto
      ultimately show ?thesis using post h by metis
    qed
  qed
qed

text \<open>
  Claim C6. For the pool of candidates of the three strategies: when the pool is empty
  the locator returns \<^verbatim>\<open>None\<close>; when it is not (and the screenshot has a positive
  width and height) the locator returns the centre of a candidate of highest
  confidence, the first such candidate of the pool, divided by the width and the
  height of the screenshot.
\<close>

theorem locator_returns_best_candidate:
  assumes "template_matches @ text_matches @ shape_matches = pool"
  shows "(pool = [] \<longrightarrow>
            find_ui_element_by_text_and_vision template_matches text_matches shape_matches dims
              = Inr None)
       \<and> (pool \<noteq> [] \<and> 0 < fst dims \<and> 0 < snd dims \<longrightarrow>
            (\<exists>before best after. pool = before @ best # after
               \<and> (\<forall>c\<in>set before. confidence c < confidence best)
               \<and> (\<forall>c\<in>set after. confidence c \<le> confidence best)
               \<and> find_ui_element_by_text_and_vision template_matches text_matches shape_matches dims
                   = Inr (Some (fst (center best) / of_nat (fst dims),
                                snd (center best) / of_nat (snd dims)))))"
proof (intro conjI impI)
  assume "pool = []"
  then show "find_ui_element_by_text_and_vision template_matches text_matches shape_matches dims
               = Inr None"
    using assms by (simp add: find_ui_element_by_text_and_vision_def sort_by_confidence_def)
next
  assume a: "pool \<noteq> [] \<and> 0 < fst dims \<and> 0 < snd dims"
  define f where "f = (\<lambda>c :: candidate. - confidence c)"
  have "sort_key f pool \<noteq> []" using a by (simp add: sort_key_Nil_iff)
  then obtain best others where s: "sort_key f pool = best # others"
    by (cases "sort_key f pool") auto
  then have b: "hd (sort_key f pool) = best" by simp
  from a hd_sort_key_first_least [of pool f] b obtain pre post where
    p: "pool = pre @ best # post" and
    q: "\<forall>c\<in>set pre. f best < f c" and r: "\<forall>c\<in>set post. f best \<le> f c"
    by auto
  have "sort_by_confidence (template_matches @ text_matches @ shape_matches) = best # others"
    using s assms by (simp add: sort_by_confidence_def f_def)
  then have "find_ui_element_by_text_and_vision template_matches text_matches shape_matches dims
          = Inr (Some (fst (center best) / of_nat (fst dims), snd (center best) / of_nat (snd dims)))"
    using a by (simp add: find_ui_element_by_text_and_vision_def)
  moreover have "\<forall>c\<in>set pre. confidence c < confidence best" using q by (simp add: f_def)
  moreover have "\<forall>c\<in>set post. confidence c \<le> confidence best" using r by (simp add: f_def)
  ultimately show "\<exists>before best after. pool = before @ best # after
               \<and> (\<forall>c\<in>set before. confidence c < confidence best)
               \<and> (\<forall>c\<in>set after. confidence c \<le> confidence best)
               \<and> find_ui_element_by_text_and_vision template_matches text_matches shape_matches dims
                   = Inr (Some (fst (center best) / of_nat (fst dims),
                                snd (center best) / of_nat (snd dims)))"
    using p by blast
qed

text \<open>
  A template hit and an icon candidate tie at confidence 1.2 on a 1000 by 800
  screenshot: the template hit, appended first, is returned as (100/1000, 50/800); no
  candidate at all gives \<^verbatim>\<open>None\<close>.
\<close>

theorem locator_returns_best_candidate_witness:
  "find_ui_element_by_text_and_vision [] [] [] (1000, 800) = Inr None
   \<and> [\<lparr>kind = ''template'', confidence = 6 / 5, center = (100, 50)\<rparr>]
       @ [\<lparr>kind = ''text'', confidence = 9 / 10, center = (140, 215)\<rparr>,
          \<lparr>kind = ''icon'', confidence = 6 / 5, center = (140, 150)\<rparr>]
       @ [\<lparr>kind = ''shape'', confidence = 1 / 2, center = (10, 10)\<rparr>] \<noteq> []
   \<and> find_ui_element_by_text_and_vision
        [\<lparr>kind = ''template'', confidence = 6 / 5, center = (100, 50)\<rparr>]
        [\<lparr>kind = ''text'', confidence = 9 / 10, center = (140, 215)\<rparr>,
         \<lparr>kind = ''icon'', confidence = 6 / 5, center = (140, 150)\<rparr>]
        [\<lparr>kind = ''shape'', confidence = 1 / 2, center = (10, 10)\<rparr>] (1000, 800)
       = Inr (Some (1 / 10, 1 / 16))"
  using locator_returns_best_candidate [of "[]" "[]" "[]" "[]" "(1000, 800)"]
    locator_returns_best_candidate
      [of "[\<lparr>kind = ''template'', confidence = 6 / 5, center = (100, 50)\<rparr>]"
          "[\<lparr>kind = ''text'', confidence = 9 / 10, center = (140, 215)\<rparr>,
            \<lparr>kind = ''icon'', confidence = 6 / 5, center = (140, 150)\<rparr>]"
          "[\<lparr>kind = ''shape'', confidence = 1 / 2, center = (10, 10)\<rparr>]" _ "(1000, 800)",
       OF refl]
  by (simp add: find_ui_element_by_text_and_vision_def sort_by_confidence_def)

section \<open>Properties of the normalizer of \<^verbatim>\<open>call_claude_37\<close>\<close>





text \<open>Under a double click, from index 1 on the loop appends no click.\<close>

lemma loop_skips_clicks:
  "claude_37_loop True i ops = Inr out \<Longrightarrow> 0 < i \<Longrightarrow> \<forall>r\<in>set out. \<not> is_click r"
proof (induction ops arbitrary: i out)
  case Nil
  then show ?case by simp
next
  case (Cons op ops)
  show ?case
  proof (cases op)
    case (JObj kvs)
    show ?thesis
    proof (cases "dict_get kvs ''operation'' = JStr ''click''")
      case True
      with Cons.prems JObj have "claude_37_loop True (Suc i) ops = Inr out"
        by (auto split: sum.splits if_splits)
      then show ?thesis using Cons.IH by blast
    next
      case False
      with Cons.prems JObj obtain rest where
        r: "claude_37_loop True (Suc i) ops = Inr rest" and o: "out = JObj kvs # rest"
        by (auto split: sum.splits)
      from r Cons.IH have "\<forall>r\<in>set rest. \<not> is_click r" by blast
      then show ?thesis using o False by simp
    qed
  qed (use Cons.prems in auto)
qed

text \<open>
  When an operation of the batch signals a double click, the first loop ends with
  \<^verbatim>\<open>True\<close> or raises.
\<close>

lemma need_double_click_fires:
  "op \<in> set ops \<Longrightarrow> signals_double_click op \<Longrightarrow> need_double_click ops \<noteq> Inr False"
proof (induction ops)
  case Nil
  then show ?case by simp
next
  case (Cons a ops)
  show ?case
  proof (cases a)
    case (JObj kvs)
    show ?thesis
    proof (cases "op = a")
      case True
      then show ?thesis using Cons.prems JObj
        by (auto simp: signals_double_click_def has_key_def dict_get_def
            split: option.splits json.splits)
    next
      case False
      then have "need_double_click ops \<noteq> Inr False" using Cons by auto
      then show ?thesis using JObj by (auto split: json.splits)
    qed
  qed simp_all
qed

lemma fallbacks_not_click:
  "\<not> is_click error_fallback_operation" "\<not> is_click empty_fallback_operation"
  by (simp_all add: error_fallback_operation_def empty_fallback_operation_def dict_get_def)


text \<open>
  Claim C10. In \<^verbatim>\<open>call_claude_37\<close>, when some operation of the batch signals a double
  click (an explicit \<^verbatim>\<open>double_click\<close> flag, or a thought with both words) and the first
  operation of the batch is not a click, the returned batch holds no click operation.
\<close>

theorem double_click_without_leading_click_drops_all_clicks:
  assumes "op \<in> set (first # rest)" and "signals_double_click op" and "\<not> is_click first"
  shows "\<forall>r\<in>set (call_claude_37 (Parsed (JArr (first # rest)))). \<not> is_click r"
proof (cases "claude_37_process (JArr (first # rest))")
  case (Inl e)
  then show ?thesis
    by (simp add: call_claude_37_def claude_37_finish_def fallbacks_not_click)
next
  case (Inr out)
  have n: "need_double_click (first # rest) \<noteq> Inr False"
    using assms(1,2) by (rule need_double_click_fires)
  with Inr have l: "claude_37_loop True 0 (first # rest) = Inr out"
    by (auto simp: claude_37_process_def split: sum.splits)
  then obtain kvs where f: "first = JObj kvs" by (cases first) auto
  with assms(3) have nc: "dict_get kvs ''operation'' \<noteq> JStr ''click''" by simp
  with l f obtain out' where
    r: "claude_37_loop True (Suc 0) rest = Inr out'" and o: "out = first # out'"
    by (auto split: sum.splits)
  from r have "\<forall>r\<in>set out'. \<not> is_click r" by (rule loop_skips_clicks) simp
  then have "\<forall>r\<in>set out. \<not> is_click r" using o assms(3) by simp
  then show ?thesis using Inr o
    by (simp add: call_claude_37_def claude_37_finish_def)
qed

text \<open>
  A key press whose thought speaks of a double click, followed by two clicks with
  coordinates: only the key press is returned.
\<close>

theorem double_click_without_leading_click_drops_all_clicks_witness:
  "signals_double_click
     (JObj [(''thought'', JStr ''double click it''), (''operation'', JStr ''press'')])
   \<and> \<not> is_click (JObj [(''thought'', JStr ''double click it''), (''operation'', JStr ''press'')])
   \<and> is_click (JObj [(''operation'', JStr ''click''), (''x'', JStr ''0.10''), (''y'', JStr ''0.20'')])
   \<and> call_claude_37 (Parsed (JArr
        [JObj [(''thought'', JStr ''double click it''), (''operation'', JStr ''press'')],
         JObj [(''operation'', JStr ''click''), (''x'', JStr ''0.10''), (''y'', JStr ''0.20'')],
         JObj [(''operation'', JStr ''click''), (''x'', JStr ''0.10''), (''y'', JStr ''0.20'')]]))
       = [JObj [(''thought'', JStr ''double click it''), (''operation'', JStr ''press'')]]"
proof -
  have e: "call_claude_37 (Parsed (JArr
        [JObj [(''thought'', JStr ''double click it''), (''operation'', JStr ''press'')],
         JObj [(''operation'', JStr ''click''), (''x'', JStr ''0.10''), (''y'', JStr ''0.20'')],
         JObj [(''operation'', JStr ''click''), (''x'', JStr ''0.10''), (''y'', JStr ''0.20'')]]))
       = [JObj [(''thought'', JStr ''double click it''), (''operation'', JStr ''press'')]]"
    by code_simp
  have s: "signals_double_click
     (JObj [(''thought'', JStr ''double click it''), (''operation'', JStr ''press'')])"
    by code_simp
  have c: "\<not> is_click (JObj [(''thought'', JStr ''double click it''), (''operation'', JStr ''press'')])"
    by (simp add: dict_get_def)
  have "\<forall>r\<in>set (call_claude_37 (Parsed (JArr
        (JObj [(''thought'', JStr ''double click it''), (''operation'', JStr ''press'')] #
         [JObj [(''operation'', JStr ''click''), (''x'', JStr ''0.10''), (''y'', JStr ''0.20'')],
          JObj [(''operation'', JStr ''click''), (''x'', JStr ''0.10''), (''y'', JStr ''0.20'')]])))).
          \<not> is_click r"
    using s c by (intro double_click_without_leading_click_drops_all_clicks [OF _ s c]) simp
  then show ?thesis using e s c by (simp add: dict_get_def)
qed




section \<open>Failures of a turn\<close>




section \<open>Retries and fallback hops\<close>
















section \<open>A screen for the examples\<close>

text \<open>
  \<^verbatim>\<open>Docker\<close> in the box (0, 0) to (60, 20) and \<^verbatim>\<open>Documents\<close> in the box (100, 200) to
  (180, 230) of a 1000 by 800 screenshot: the centres as fractions.
\<close>

lemma documents_center:
  "element_center (1000, 800)
     ([(100, 200), (180, 200), (180, 230), (100, 230)], ''Documents'', 9 / 10)
     = (JNum (7 / 50), JNum (43 / 160))"
  by (simp add: element_center_def box_center_def ocr_box_def)

lemma docker_center:
  "element_center (1000, 800) ([(0, 0), (60, 0), (60, 20), (0, 20)], ''Docker'', 4 / 5)
     = (JNum (3 / 100), JNum (1 / 80))"
  by (simp add: element_center_def box_center_def ocr_box_def)

lemmas resolver_defs =
  text_click_def get_text_element_def get_text_coordinates_def ocr_text_def

section \<open>Clicks that cannot be resolved\<close>

lemma ocr_click_loop_step:
  "ocr_click_loop resolve (op # ops) = Inr out \<longleftrightarrow>
     (\<exists>op' rest. enrich resolve op = Some op' \<and> ocr_click_loop resolve ops = Inr rest
        \<and> out = op' # rest)"
  by (cases op) (auto simp: enrich_def split: sum.splits prod.splits)

text \<open>The loop returns a batch exactly when every operation has its enriched form.\<close>

lemma ocr_click_loop_enrich:
  "ocr_click_loop resolve ops = Inr out \<longleftrightarrow> map (enrich resolve) ops = map Some out"
proof (induction ops arbitrary: out)
  case Nil
  then show ?case by auto
next
  case (Cons op ops)
  have "ocr_click_loop resolve (op # ops) = Inr out \<longleftrightarrow>
     (\<exists>op' rest. enrich resolve op = Some op' \<and> map (enrich resolve) ops = map Some rest
        \<and> out = op' # rest)"
    unfolding ocr_click_loop_step using Cons.IH by simp
  also have "\<dots> \<longleftrightarrow> map (enrich resolve) (op # ops) = map Some out"
    by (cases out) auto
  finally show ?case .
qed

lemma ocr_click_loop_unresolved:
  assumes "JObj kvs \<in> set ops" and "dict_get kvs ''operation'' = JStr ''click''"
    and "resolve (dict_get kvs ''text'') = Inl e"
  shows "\<exists>e'. ocr_click_loop resolve ops = Inl e'"
proof (cases "ocr_click_loop resolve ops")
  case (Inr out)
  then have "map (enrich resolve) ops = map Some out" by (simp add: ocr_click_loop_enrich)
  moreover have "enrich resolve (JObj kvs) = None" using assms by (simp add: enrich_def)
  ultimately show ?thesis
    using assms(1) by (metis image_eqI list.set_map option.distinct(1) imageE)
qed simp

text \<open>
  Claim C1, as amended. When a click of the batch cannot be resolved, the
  OCR-augmented backend emits no operation of the batch: the turn is handed to
  \<^verbatim>\<open>gpt_4_fallback\<close> and its outcome is returned; \<^verbatim>\<open>call_gpt_4o_labeled\<close> hands the
  turn to \<^verbatim>\<open>call_gpt_4o\<close> when its first operation is such a click. A batch that the
  OCR-augmented backend does emit holds every operation of the answer in order, each
  click with exactly the coordinates the resolver returned and every other operation
  unchanged.
\<close>

theorem unresolved_click_hands_turn_to_fallback:
  "(replies n = Parsed (JArr ops) \<and> JObj kvs \<in> set ops
      \<and> dict_get kvs ''operation'' = JStr ''click''
      \<and> text_click Inr gte gtc (dict_get kvs ''text'') = Inl e \<longrightarrow>
        call_gpt_4o_with_ocr gte gtc replies n = gpt_4_fallback replies (Suc n))
   \<and> (replies n = Parsed (JArr (JObj kvs # rest))
      \<and> dict_get kvs ''operation'' = JStr ''click'' \<and> locate (dict_get kvs ''label'') = Inr None \<longrightarrow>
        call_gpt_4o_labeled locate fmt replies n =
          (case call_gpt_4o replies (Suc n) of
             None \<Rightarrow> None
           | Some (Inr v, m) \<Rightarrow> Some (Inr v, m)
           | Some (Inl e', m) \<Rightarrow> call_gpt_4o replies m))
   \<and> (replies n = Parsed (JArr ops)
      \<and> map (enrich (text_click Inr gte gtc)) ops = map Some out \<longrightarrow>
        call_gpt_4o_with_ocr gte gtc replies n = Some (Inr (JArr out), Suc n))"
proof (intro conjI impI)
  assume a: "replies n = Parsed (JArr ops) \<and> JObj kvs \<in> set ops
      \<and> dict_get kvs ''operation'' = JStr ''click''
      \<and> text_click Inr gte gtc (dict_get kvs ''text'') = Inl e"
  then obtain e' where "ocr_click_loop (text_click Inr gte gtc) ops = Inl e'"
    using ocr_click_loop_unresolved by blast
  then show "call_gpt_4o_with_ocr gte gtc replies n = gpt_4_fallback replies (Suc n)"
    using a by (simp add: call_gpt_4o_with_ocr_def ocr_process_def ocr_finish_def)
next
  assume "replies n = Parsed (JArr (JObj kvs # rest))
      \<and> dict_get kvs ''operation'' = JStr ''click'' \<and> locate (dict_get kvs ''label'') = Inr None"
  then show "call_gpt_4o_labeled locate fmt replies n =
          (case call_gpt_4o replies (Suc n) of
             None \<Rightarrow> None
           | Some (Inr v, m) \<Rightarrow> Some (Inr v, m)
           | Some (Inl e', m) \<Rightarrow> call_gpt_4o replies m)"
    by (simp add: call_gpt_4o_labeled_def labeled_process_def)
next
  assume a: "replies n = Parsed (JArr ops)
      \<and> map (enrich (text_click Inr gte gtc)) ops = map Some out"
  then have "ocr_click_loop (text_click Inr gte gtc) ops = Inr out"
    by (simp add: ocr_click_loop_enrich)
  then show "call_gpt_4o_with_ocr gte gtc replies n = Some (Inr (JArr out), Suc n)"
    using a by (simp add: call_gpt_4o_with_ocr_def ocr_process_def ocr_finish_def)
qed

text \<open>
  The screen shows \<^verbatim>\<open>Documents\<close> in the box (100, 200) to (180, 230) of a 1000 by 800
  screenshot. A key press followed by a click on \<^verbatim>\<open>Trash\<close> ends in the fallback's
  answer; followed by a click on \<^verbatim>\<open>Documents\<close>, both operations are returned, the
  click at (0.14, 0.26875).
\<close>

theorem unresolved_click_hands_turn_to_fallback_witness:
  "text_click Inr
      (get_text_element [([(100, 200), (180, 200), (180, 230), (100, 230)], ''Documents'', 9 / 10)])
      (get_text_coordinates (1000, 800)
         [([(100, 200), (180, 200), (180, 230), (100, 230)], ''Documents'', 9 / 10)])
      (JStr ''Trash'') = Inl NotFound
   \<and> call_gpt_4o_with_ocr
      (get_text_element [([(100, 200), (180, 200), (180, 230), (100, 230)], ''Documents'', 9 / 10)])
      (get_text_coordinates (1000, 800)
         [([(100, 200), (180, 200), (180, 230), (100, 230)], ''Documents'', 9 / 10)])
      (\<lambda>i. if i = 0
            then Parsed (JArr [JObj [(''operation'', JStr ''press''), (''keys'', JArr [JStr ''enter''])],
                               JObj [(''operation'', JStr ''click''), (''text'', JStr ''Trash'')]])
            else Parsed (JArr [JObj [(''operation'', JStr ''done'')]])) 0
     = gpt_4_fallback
      (\<lambda>i. if i = 0
            then Parsed (JArr [JObj [(''operation'', JStr ''press''), (''keys'', JArr [JStr ''enter''])],
                               JObj [(''operation'', JStr ''click''), (''text'', JStr ''Trash'')]])
            else Parsed (JArr [JObj [(''operation'', JStr ''done'')]])) (Suc 0)
   \<and> call_gpt_4o_with_ocr
      (get_text_element [([(100, 200), (180, 200), (180, 230), (100, 230)], ''Documents'', 9 / 10)])
      (get_text_coordinates (1000, 800)
         [([(100, 200), (180, 200), (180, 230), (100, 230)], ''Documents'', 9 / 10)])
      (\<lambda>i. Parsed (JArr [JObj [(''operation'', JStr ''press''), (''keys'', JArr [JStr ''enter''])],
                         JObj [(''operation'', JStr ''click''), (''text'', JStr ''Documents'')]])) 0
     = Some (Inr (JArr [JObj [(''operation'', JStr ''press''), (''keys'', JArr [JStr ''enter''])],
                        JObj [(''operation'', JStr ''click''), (''text'', JStr ''Documents''),
                              (''x'', JNum (7 / 50)), (''y'', JNum (43 / 160))]]), Suc 0)"
proof -
  define ocr :: "ocr_element list" where
    "ocr = [([(100, 200), (180, 200), (180, 230), (100, 230)], ''Documents'', 9 / 10)]"
  define press where
    "press = JObj [(''operation'', JStr ''press''), (''keys'', JArr [JStr ''enter''])]"
  have t: "text_click Inr (get_text_element ocr) (get_text_coordinates (1000, 800) ocr)
             (JStr ''Trash'') = Inl NotFound"
    unfolding ocr_def by (simp add: resolver_defs)
  have d: "text_click Inr (get_text_element ocr) (get_text_coordinates (1000, 800) ocr)
             (JStr ''Documents'') = Inr (JNum (7 / 50), JNum (43 / 160))"
    unfolding ocr_def by (simp add: resolver_defs documents_center)
  have m: "map (enrich (text_click Inr (get_text_element ocr) (get_text_coordinates (1000, 800) ocr)))
             [press, JObj [(''operation'', JStr ''click''), (''text'', JStr ''Documents'')]]
           = map Some [press, JObj [(''operation'', JStr ''click''), (''text'', JStr ''Documents''),
                                    (''x'', JNum (7 / 50)), (''y'', JNum (43 / 160))]]"
    using d by (simp add: enrich_def press_def dict_get_def)
  show ?thesis
    using t
      unresolved_click_hands_turn_to_fallback
        [of "\<lambda>i. if i = 0
                 then Parsed (JArr [press, JObj [(''operation'', JStr ''click''), (''text'', JStr ''Trash'')]])
                 else Parsed (JArr [JObj [(''operation'', JStr ''done'')]])" 0
            "[press, JObj [(''operation'', JStr ''click''), (''text'', JStr ''Trash'')]]"
            "[(''operation'', JStr ''click''), (''text'', JStr ''Trash'')]"
            "get_text_element ocr" "get_text_coordinates (1000, 800) ocr" NotFound]
      unresolved_click_hands_turn_to_fallback
        [of "\<lambda>i. Parsed (JArr [press, JObj [(''operation'', JStr ''click''), (''text'', JStr ''Documents'')]])" 0
            "[press, JObj [(''operation'', JStr ''click''), (''text'', JStr ''Documents'')]]"
            _ "get_text_element ocr" "get_text_coordinates (1000, 800) ocr" _ _ _ _
            "[press, JObj [(''operation'', JStr ''click''), (''text'', JStr ''Documents''),
                           (''x'', JNum (7 / 50)), (''y'', JNum (43 / 160))]]"]
      m
    unfolding ocr_def press_def by (simp add: dict_get_def)
qed

text \<open>
  The claim as it stands fails: with \<^verbatim>\<open>Trash\<close> not on the screen, the key press that
  stands before the click is not emitted either; the turn returns the fallback's
  \<^verbatim>\<open>done\<close>.
\<close>

theorem unresolved_click_counterexample:
  "call_gpt_4o_with_ocr
      (get_text_element [([(100, 200), (180, 200), (180, 230), (100, 230)], ''Documents'', 9 / 10)])
      (get_text_coordinates (1000, 800)
         [([(100, 200), (180, 200), (180, 230), (100, 230)], ''Documents'', 9 / 10)])
      (\<lambda>i. if i = 0
            then Parsed (JArr [JObj [(''operation'', JStr ''press''), (''keys'', JArr [JStr ''enter''])],
                               JObj [(''operation'', JStr ''click''), (''text'', JStr ''Trash'')]])
            else Parsed (JArr [JObj [(''operation'', JStr ''done'')]])) 0
     = Some (Inr (JArr [JObj [(''operation'', JStr ''done'')]]), 2)"
proof -
  have "ocr_process (text_click Inr
      (get_text_element [([(100, 200), (180, 200), (180, 230), (100, 230)], ''Documents'', 9 / 10)])
      (get_text_coordinates (1000, 800)
         [([(100, 200), (180, 200), (180, 230), (100, 230)], ''Documents'', 9 / 10)]))
      (JArr [JObj [(''operation'', JStr ''press''), (''keys'', JArr [JStr ''enter''])],
             JObj [(''operation'', JStr ''click''), (''text'', JStr ''Trash'')]]) = Inl NotFound"
    by (simp add: ocr_process_def dict_get_def resolver_defs)
  then show ?thesis
    by (simp add: call_gpt_4o_with_ocr_def ocr_finish_def gpt_4_fallback_def call_gpt_4o.simps)
qed

section \<open>The early return of \<^verbatim>\<open>call_gpt_4o_labeled\<close>\<close>






section \<open>Exact matches of the OCR text-click resolver\<close>

lemma first_index_Some:
  "first_index P xs = Some i \<Longrightarrow> i < length xs \<and> P (xs ! i) \<and> (\<forall>j<i. \<not> P (xs ! j))"
proof (induction xs arbitrary: i)
  case Nil
  then show ?case by simp
next
  case (Cons x xs)
  show ?case
  proof (cases "P x")
    case True
    then show ?thesis using Cons.prems by simp
  next
    case False
    then obtain k where k: "first_index P xs = Some k" and i: "i = Suc k"
      using Cons.prems by (auto split: option.splits)
    from Cons.IH [OF k] show ?thesis using False i by (auto simp: less_Suc_eq_0_disj)
  qed
qed

lemma first_index_exists: "x \<in> set xs \<Longrightarrow> P x \<Longrightarrow> \<exists>i. first_index P xs = Some i"
  by (induction xs) (auto split: option.splits)

text \<open>
  Claim C4, as amended. With the resolver modelled from the spec: when some element's
  text equals the target (and the screenshot has a positive width and height), the
  resolution of the backends that pass the whole target text (\<^verbatim>\<open>call_gpt_4o_with_ocr\<close>,
  \<^verbatim>\<open>call_o1_with_ocr\<close>, \<^verbatim>\<open>call_qwen_vl_with_ocr\<close>) returns the centre of the first
  element whose text equals the target. \<^verbatim>\<open>call_claude_3_with_ocr\<close> resolves the first
  three characters of the target instead, and returns what they resolve to.
\<close>

theorem exact_match_is_resolved:
  "(e \<in> set result \<and> ocr_text e = t \<and> 0 < fst dims \<and> 0 < snd dims \<longrightarrow>
      (\<exists>i<length result. ocr_text (result ! i) = t \<and> (\<forall>j<i. ocr_text (result ! j) \<noteq> t)
         \<and> text_click Inr (get_text_element result) (get_text_coordinates dims result) (JStr t)
             = Inr (element_center dims (result ! i))))
   \<and> text_click py_slice3 (get_text_element result) (get_text_coordinates dims result) (JStr t)
       = text_click Inr (get_text_element result) (get_text_coordinates dims result)
           (JStr (take 3 t))"
proof (intro conjI impI)
  assume a: "e \<in> set result \<and> ocr_text e = t \<and> 0 < fst dims \<and> 0 < snd dims"
  then obtain i where i: "first_index (\<lambda>e. ocr_text e = t) result = Some i"
    using first_index_exists [of e result "\<lambda>e. ocr_text e = t"] by blast
  from first_index_Some [OF i] have
    l: "i < length result" and m: "ocr_text (result ! i) = t"
    and f: "\<forall>j<i. ocr_text (result ! j) \<noteq> t"
    by auto
  have "text_click Inr (get_text_element result) (get_text_coordinates dims result) (JStr t)
          = Inr (element_center dims (result ! i))"
    using i l a by (simp add: text_click_def get_text_element_def get_text_coordinates_def)
  then show "\<exists>i<length result. ocr_text (result ! i) = t \<and> (\<forall>j<i. ocr_text (result ! j) \<noteq> t)
         \<and> text_click Inr (get_text_element result) (get_text_coordinates dims result) (JStr t)
             = Inr (element_center dims (result ! i))"
    using l m f by blast
next
  show "text_click py_slice3 (get_text_element result) (get_text_coordinates dims result) (JStr t)
       = text_click Inr (get_text_element result) (get_text_coordinates dims result)
           (JStr (take 3 t))"
    by (simp add: text_click_def)
qed

text \<open>
  The screen shows \<^verbatim>\<open>Docker\<close> in the box (0, 0) to (60, 20) and \<^verbatim>\<open>Documents\<close> in the
  box (100, 200) to (180, 230) of a 1000 by 800 screenshot. With the whole target
  \<^verbatim>\<open>Documents\<close> the resolution is the centre of the second element, (0.14, 0.26875).
\<close>

theorem exact_match_is_resolved_witness:
  "ocr_text ([(100, 200), (180, 200), (180, 230), (100, 230)], ''Documents'', 9 / 10) = ''Documents''
   \<and> text_click Inr
      (get_text_element [([(0, 0), (60, 0), (60, 20), (0, 20)], ''Docker'', 4 / 5),
                         ([(100, 200), (180, 200), (180, 230), (100, 230)], ''Documents'', 9 / 10)])
      (get_text_coordinates (1000, 800)
                        [([(0, 0), (60, 0), (60, 20), (0, 20)], ''Docker'', 4 / 5),
                         ([(100, 200), (180, 200), (180, 230), (100, 230)], ''Documents'', 9 / 10)])
      (JStr ''Documents'')
     = Inr (JNum (7 / 50), JNum (43 / 160))
   \<and> text_click py_slice3
      (get_text_element [([(0, 0), (60, 0), (60, 20), (0, 20)], ''Docker'', 4 / 5),
                         ([(100, 200), (180, 200), (180, 230), (100, 230)], ''Documents'', 9 / 10)])
      (get_text_coordinates (1000, 800)
                        [([(0, 0), (60, 0), (60, 20), (0, 20)], ''Docker'', 4 / 5),
                         ([(100, 200), (180, 200), (180, 230), (100, 230)], ''Documents'', 9 / 10)])
      (JStr ''Documents'')
     = Inr (JNum (3 / 100), JNum (1 / 80))"
proof -
  have a: "text_click Inr
      (get_text_element [([(0, 0), (60, 0), (60, 20), (0, 20)], ''Docker'', 4 / 5),
                         ([(100, 200), (180, 200), (180, 230), (100, 230)], ''Documents'', 9 / 10)])
      (get_text_coordinates (1000, 800)
                        [([(0, 0), (60, 0), (60, 20), (0, 20)], ''Docker'', 4 / 5),
                         ([(100, 200), (180, 200), (180, 230), (100, 230)], ''Documents'', 9 / 10)])
      (JStr ''Documents'')
     = Inr (JNum (7 / 50), JNum (43 / 160))"
    by (simp add: resolver_defs documents_center)
  have b: "text_click Inr
      (get_text_element [([(0, 0), (60, 0), (60, 20), (0, 20)], ''Docker'', 4 / 5),
                         ([(100, 200), (180, 200), (180, 230), (100, 230)], ''Documents'', 9 / 10)])
      (get_text_coordinates (1000, 800)
                        [([(0, 0), (60, 0), (60, 20), (0, 20)], ''Docker'', 4 / 5),
                         ([(100, 200), (180, 200), (180, 230), (100, 230)], ''Documents'', 9 / 10)])
      (JStr (take 3 ''Documents''))
     = Inr (JNum (3 / 100), JNum (1 / 80))"
    by (simp add: resolver_defs docker_center)
  have c: "ocr_text ([(100, 200), (180, 200), (180, 230), (100, 230)], ''Documents'', 9 / 10)
             = ''Documents''"
    by (simp add: ocr_text_def)
  show ?thesis
    using exact_match_is_resolved
      [of "([(100, 200), (180, 200), (180, 230), (100, 230)], ''Documents'', 9 / 10)"
          "[([(0, 0), (60, 0), (60, 20), (0, 20)], ''Docker'', 4 / 5),
            ([(100, 200), (180, 200), (180, 230), (100, 230)], ''Documents'', 9 / 10)]"
          "''Documents''" "(1000, 800)"] a b c
    by simp
qed

text \<open>
  The claim as it stands fails in \<^verbatim>\<open>call_claude_3_with_ocr\<close>: on the same screen a
  click on \<^verbatim>\<open>Documents\<close> is resolved through \<^verbatim>\<open>Doc\<close> to the centre of \<^verbatim>\<open>Docker\<close>,
  (0.03, 0.0125), although \<^verbatim>\<open>Documents\<close> is on the screen as it is.
\<close>

theorem exact_match_counterexample:
  "call_claude_3_with_ocr
      (get_text_element [([(0, 0), (60, 0), (60, 20), (0, 20)], ''Docker'', 4 / 5),
                         ([(100, 200), (180, 200), (180, 230), (100, 230)], ''Documents'', 9 / 10)])
      (get_text_coordinates (1000, 800)
                        [([(0, 0), (60, 0), (60, 20), (0, 20)], ''Docker'', 4 / 5),
                         ([(100, 200), (180, 200), (180, 230), (100, 230)], ''Documents'', 9 / 10)])
      (\<lambda>i. Parsed (JArr [JObj [(''operation'', JStr ''click''), (''text'', JStr ''Documents'')]])) 0
     = Some (Inr (JArr [JObj [(''operation'', JStr ''click''), (''text'', JStr ''Documents''),
                              (''x'', JNum (3 / 100)), (''y'', JNum (1 / 80))]]), 1)
   \<and> element_center (1000, 800)
        ([(100, 200), (180, 200), (180, 230), (100, 230)], ''Documents'', 9 / 10)
     = (JNum (7 / 50), JNum (43 / 160))"
proof -
  have "ocr_process (text_click py_slice3
      (get_text_element [([(0, 0), (60, 0), (60, 20), (0, 20)], ''Docker'', 4 / 5),
                         ([(100, 200), (180, 200), (180, 230), (100, 230)], ''Documents'', 9 / 10)])
      (get_text_coordinates (1000, 800)
                        [([(0, 0), (60, 0), (60, 20), (0, 20)], ''Docker'', 4 / 5),
                         ([(100, 200), (180, 200), (180, 230), (100, 230)], ''Documents'', 9 / 10)]))
      (JArr [JObj [(''operation'', JStr ''click''), (''text'', JStr ''Documents'')]])
     = Inr [JObj [(''operation'', JStr ''click''), (''text'', JStr ''Documents''),
                  (''x'', JNum (3 / 100)), (''y'', JNum (1 / 80))]]"
    by (simp add: ocr_process_def dict_get_def resolver_defs docker_center)
  moreover have "element_center (1000, 800)
        ([(100, 200), (180, 200), (180, 230), (100, 230)], ''Documents'', 9 / 10)
     = (JNum (7 / 50), JNum (43 / 160))"
    by (rule documents_center)
  ultimately show ?thesis
    by (simp add: call_claude_3_with_ocr_def ocr_finish_def)
qed

section \<open>The first quoted substring\<close>








section \<open>Properties of the verification probe\<close>

lemma count_changed:
  assumes "length xs = length ys"
  shows "count_nonzero (map (\<lambda>pq. threshold (gray (absdiff (fst pq) (snd pq)))) (zip xs ys))
           = card {i. i < length xs \<and> 30 < gray (absdiff (xs ! i) (ys ! i))}"
proof -
  have "count_nonzero (map (\<lambda>pq. threshold (gray (absdiff (fst pq) (snd pq)))) (zip xs ys))
          = length (filter (\<lambda>pq. 30 < gray (absdiff (fst pq) (snd pq))) (zip xs ys))"
    by (simp add: count_nonzero_def threshold_def filter_map comp_def)
  also have "\<dots> = card {i. i < length (zip xs ys)
                \<and> 30 < gray (absdiff (fst (zip xs ys ! i)) (snd (zip xs ys ! i)))}"
    by (rule length_filter_conv_card)
  also have "\<dots> = card {i. i < length xs \<and> 30 < gray (absdiff (xs ! i) (ys ! i))}"
    using assms by (intro arg_cong [where f = card]) auto
  finally show ?thesis .
qed

lemma verify_success_compared:
  "verify_success resize gray before after task_type =
     (if task_type = ''open_folder'' then
        (if shape before \<noteq> shape (compared_image resize before after)
            \<or> length (pixels before) \<noteq> length (pixels (compared_image resize before after))
         then Inl Cv2Error
         else if length (zip (pixels before) (pixels (compared_image resize before after))) = 0
         then Inl ZeroDivisionError
         else Inr (15 < of_nat (count_nonzero
                      (map (\<lambda>pq. threshold (gray (absdiff (fst pq) (snd pq))))
                         (zip (pixels before) (pixels (compared_image resize before after)))))
                    / of_nat (length (zip (pixels before)
                                (pixels (compared_image resize before after)))) * (100 :: rat)))
      else Inr False)"
  by (simp add: verify_success_def compared_image_def Let_def)

lemma verify_open_folder:
  assumes "comparable before (compared_image resize before after)"
  shows "verify_success resize gray before after ''open_folder''
           = Inr (15 < change_percentage gray before (compared_image resize before after))"
proof -
  define a where "a = compared_image resize before after"
  have l: "length (pixels before) = length (pixels a)" and s: "shape before = shape a"
    and ne: "pixels before \<noteq> []"
    using assms by (auto simp: comparable_def a_def)
  have c: "count_nonzero (map (\<lambda>pq. threshold (gray (absdiff (fst pq) (snd pq))))
              (zip (pixels before) (pixels a)))
            = card (changed_pixels gray before a)"
    using count_changed [OF l] by (simp add: changed_pixels_def)
  have z: "length (zip (pixels before) (pixels a)) = length (pixels before)" using l by simp
  have ne': "pixels a \<noteq> []" using ne l by auto
  show ?thesis
    unfolding verify_success_compared a_def [symmetric] change_percentage_def
    using s l ne ne' by (simp only: c z) simp
qed

text \<open>
  Claim C9. For every pair of images and every task kind: another task kind than
  \<^verbatim>\<open>open_folder\<close> gives failure; for \<^verbatim>\<open>open_folder\<close> the probe compares the image
  before with the image after, resized to the dimensions of the first when they
  differ, and returns whether more than 15 percent of the pixels have changed; so it
  returns success if and only if the task kind is \<^verbatim>\<open>open_folder\<close> and the percentage
  of changed pixels is greater than 15.
\<close>

theorem verification_probe:
  "(task_type \<noteq> ''open_folder'' \<longrightarrow> verify_success resize gray before after task_type = Inr False)
   \<and> (task_type = ''open_folder'' \<and> comparable before (compared_image resize before after) \<longrightarrow>
        verify_success resize gray before after task_type
          = Inr (15 < change_percentage gray before (compared_image resize before after)))
   \<and> (verify_success resize gray before after task_type = Inr True \<longleftrightarrow>
        task_type = ''open_folder'' \<and> comparable before (compared_image resize before after)
        \<and> 15 < change_percentage gray before (compared_image resize before after))"
proof (intro conjI impI)
  show "verify_success resize gray before after task_type = Inr False"
    if "task_type \<noteq> ''open_folder''"
    using that by (simp add: verify_success_compared)
  show "verify_success resize gray before after task_type
          = Inr (15 < change_percentage gray before (compared_image resize before after))"
    if "task_type = ''open_folder'' \<and> comparable before (compared_image resize before after)"
    using that verify_open_folder by simp
  show "verify_success resize gray before after task_type = Inr True \<longleftrightarrow>
        task_type = ''open_folder'' \<and> comparable before (compared_image resize before after)
        \<and> 15 < change_percentage gray before (compared_image resize before after)"
  proof (cases "task_type = ''open_folder''")
    case False
    then show ?thesis by (simp add: verify_success_compared)
  next
    case True
    show ?thesis
    proof (cases "comparable before (compared_image resize before after)")
      case c: True
      then show ?thesis using True verify_open_folder by simp
    next
      case False
      then have "verify_success resize gray before after ''open_folder'' \<noteq> Inr True"
        unfolding verify_success_compared comparable_def
        by (auto split: if_splits)
      then show ?thesis using False True by simp
    qed
  qed
qed

text \<open>
  Four pixels, of which one changes from black to grey 200 and one by 10 in one
  channel: 25 percent have changed. The image after comes as 2 by 2 and is resized to
  1 by 4.
\<close>

theorem verification_probe_witness:
  "comparable \<lparr>rows = 1, cols = 4, pixels = [(0, 0, 0), (0, 0, 0), (0, 0, 0), (0, 0, 0)]\<rparr>
     (compared_image (\<lambda>img d. img\<lparr>rows := snd d, cols := fst d\<rparr>)
        \<lparr>rows = 1, cols = 4, pixels = [(0, 0, 0), (0, 0, 0), (0, 0, 0), (0, 0, 0)]\<rparr>
        \<lparr>rows = 2, cols = 2, pixels = [(200, 200, 200), (0, 0, 0), (0, 10, 0), (0, 0, 0)]\<rparr>)
   \<and> verify_success (\<lambda>img d. img\<lparr>rows := snd d, cols := fst d\<rparr>)
        (\<lambda>p. (fst p + fst (snd p) + snd (snd p)) div 3)
        \<lparr>rows = 1, cols = 4, pixels = [(0, 0, 0), (0, 0, 0), (0, 0, 0), (0, 0, 0)]\<rparr>
        \<lparr>rows = 2, cols = 2, pixels = [(200, 200, 200), (0, 0, 0), (0, 10, 0), (0, 0, 0)]\<rparr>
        ''open_folder'' = Inr True
   \<and> verify_success (\<lambda>img d. img\<lparr>rows := snd d, cols := fst d\<rparr>)
        (\<lambda>p. (fst p + fst (snd p) + snd (snd p)) div 3)
        \<lparr>rows = 1, cols = 4, pixels = [(0, 0, 0), (0, 0, 0), (0, 0, 0), (0, 0, 0)]\<rparr>
        \<lparr>rows = 2, cols = 2, pixels = [(200, 200, 200), (0, 0, 0), (0, 10, 0), (0, 0, 0)]\<rparr>
        ''click_button'' = Inr False
   \<and> 15 < change_percentage (\<lambda>p. (fst p + fst (snd p) + snd (snd p)) div 3)
        \<lparr>rows = 1, cols = 4, pixels = [(0, 0, 0), (0, 0, 0), (0, 0, 0), (0, 0, 0)]\<rparr>
        (compared_image (\<lambda>img d. img\<lparr>rows := snd d, cols := fst d\<rparr>)
           \<lparr>rows = 1, cols = 4, pixels = [(0, 0, 0), (0, 0, 0), (0, 0, 0), (0, 0, 0)]\<rparr>
           \<lparr>rows = 2, cols = 2, pixels = [(200, 200, 200), (0, 0, 0), (0, 10, 0), (0, 0, 0)]\<rparr>)"
proof -
  define rs :: "image \<Rightarrow> nat \<times> nat \<Rightarrow> image" where "rs = (\<lambda>img d. img\<lparr>rows := snd d, cols := fst d\<rparr>)"
  define gr :: "pixel \<Rightarrow> nat" where "gr = (\<lambda>p. (fst p + fst (snd p) + snd (snd p)) div 3)"
  define b where "b = \<lparr>rows = 1, cols = 4, pixels = [(0, 0, 0), (0, 0, 0), (0, 0, 0), (0 :: nat, 0 :: nat, 0 :: nat)]\<rparr>"
  define a where "a = \<lparr>rows = 2, cols = 2, pixels = [(200, 200, 200), (0, 0, 0), (0, 10, 0), (0 :: nat, 0 :: nat, 0 :: nat)]\<rparr>"
  have c: "comparable b (compared_image rs b a)"
    by (simp add: comparable_def compared_image_def shape_def rs_def a_def b_def)
  have e: "verify_success rs gr b a ''open_folder'' = Inr True"
    by (simp add: verify_success_def shape_def absdiff_def channel_diff_def threshold_def
        count_nonzero_def rs_def gr_def a_def b_def)
  have f: "verify_success rs gr b a ''click_button'' = Inr False"
    using verification_probe [of "''click_button''" rs gr b a] by simp
  have "verify_success rs gr b a ''open_folder''
          = Inr (15 < change_percentage gr b (compared_image rs b a))"
    using verification_probe [of "''open_folder''" rs gr b a] c by simp
  then have "15 < change_percentage gr b (compared_image rs b a)" using e by simp
  then show ?thesis
    using c e f unfolding rs_def gr_def a_def b_def by simp
qed

end
